theory Spec2Isabelle
  imports Main
begin

section \<open>Values, errors and the shared store\<close>

text \<open>
  The module \<^verbatim>\<open>macaw/core/retrieval/search_engine.py\<close> holds two abstract classes,
  \<^verbatim>\<open>Retrieval\<close> and \<^verbatim>\<open>ReRanker\<close>. Their methods call collaborators that live outside
  the module (a query generator, a logger, the subclass's \<^verbatim>\<open>retrieve\<close>, a re-ranker).
  Python passes the parameters dict and the conversation list by reference, so both sit
  in a store that every collaborator may read and write; objects are named by references.
  As the docstrings say, \<^verbatim>\<open>params\<close> is a dict, \<^verbatim>\<open>conv_list\<close> a list and the generated query a
  \<^verbatim>\<open>str\<close>; the two attributes of an instance are not reassigned after construction.
\<close>

type_synonym ref = nat

text \<open>What \<^verbatim>\<open>retrieve\<close> and \<^verbatim>\<open>rerank\<close> hand back: \<^verbatim>\<open>None\<close> or a list of documents.\<close>

datatype 'd pyval = PyNone | PyList "'d list"

text \<open>
  \<open>KeyError k\<close> is the failure of \<^verbatim>\<open>d[k]\<close> on a dict without the key \<open>k\<close>;
  \<open>Raised n\<close> is any exception (named \<open>n\<close>) raised inside a collaborator.
\<close>

datatype error = KeyError string | Raised string

text \<open>
  The store: the contents of dict objects and of list objects, by reference, and the
  private state of the collaborators (\<open>ext\<close>, for instance what a logger has written).
\<close>

record ('m, 'x) world =
  dict_at :: "ref \<Rightarrow> string \<rightharpoonup> ref"
  list_at :: "ref \<Rightarrow> 'm list"
  ext :: 'x

text \<open>An instance of \<^verbatim>\<open>Retrieval\<close>: the two attributes \<^verbatim>\<open>__init__\<close> sets.\<close>

record retrieval =
  params :: ref
  query_generation :: ref

text \<open>An instance of \<^verbatim>\<open>ReRanker\<close>.\<close>

record reranker =
  rr_params :: ref

text \<open>
  The calls a method makes to its collaborators, each recorded with its arguments at the
  moment the call starts (so a call that raises is recorded too).
\<close>

datatype 'd event =
    CallGetQuery ref ref
  | CallInfo ref string
  | CallRetrieve string
  | CallRerank ref string ref "'d pyval" ref

text \<open>
  The collaborators, parameters of the model. Each takes the receiving object (a
  reference, or the instance itself for the subclass's \<^verbatim>\<open>retrieve\<close>), its arguments and
  the store, and either raises or returns, with the store as it leaves it.
\<close>

record ('m, 'd, 'x) collab =
  get_query :: "ref \<Rightarrow> ref \<Rightarrow> ('m, 'x) world \<Rightarrow> (error + string) \<times> ('m, 'x) world"
  info :: "ref \<Rightarrow> string \<Rightarrow> ('m, 'x) world \<Rightarrow> (error + unit) \<times> ('m, 'x) world"
  retrieve :: "retrieval \<Rightarrow> string \<Rightarrow> ('m, 'x) world \<Rightarrow> (error + 'd pyval) \<times> ('m, 'x) world"
  rerank :: "ref \<Rightarrow> string \<Rightarrow> ref \<Rightarrow> 'd pyval \<Rightarrow> ref \<Rightarrow> ('m, 'x) world
               \<Rightarrow> (error + 'd pyval) \<times> ('m, 'x) world"

section \<open>Computations that may raise\<close>

text \<open>
  A method body is a function from the calls made so far and the store to an outcome
  (\<open>Inl\<close> an exception, \<open>Inr\<close> a value) with the calls and the store afterwards.
\<close>

type_synonym ('a, 'm, 'd, 'x) prog =
  "'d event list \<times> ('m, 'x) world \<Rightarrow> (error + 'a) \<times> ('d event list \<times> ('m, 'x) world)"

definition returnE :: "'a \<Rightarrow> ('a, 'm, 'd, 'x) prog" where
  "returnE a = (\<lambda>s. (Inr a, s))"

text \<open>Sequencing: an exception of the first part ends the whole.\<close>

definition bindE :: "('a, 'm, 'd, 'x) prog \<Rightarrow> ('a \<Rightarrow> ('b, 'm, 'd, 'x) prog) \<Rightarrow> ('b, 'm, 'd, 'x) prog" where
  "bindE m k = (\<lambda>s. case m s of (Inl e, s') \<Rightarrow> (Inl e, s') | (Inr a, s') \<Rightarrow> k a s')"

text \<open>A call to a collaborator: record the call, then run the collaborator on the store.\<close>

definition call :: "'d event \<Rightarrow> (('m, 'x) world \<Rightarrow> (error + 'a) \<times> ('m, 'x) world) \<Rightarrow> ('a, 'm, 'd, 'x) prog" where
  "call ev f = (\<lambda>(tr, w). case f w of (r, w') \<Rightarrow> (r, (tr @ [ev], w')))"

text \<open>\<^verbatim>\<open>d[k]\<close> on the dict at \<open>d\<close>.\<close>

definition subscript :: "ref \<Rightarrow> string \<Rightarrow> (ref, 'm, 'd, 'x) prog" where
  "subscript d k = (\<lambda>(tr, w). case dict_at w d k of
                                 None \<Rightarrow> (Inl (KeyError k), (tr, w))
                               | Some v \<Rightarrow> (Inr v, (tr, w)))"

text \<open>\<^verbatim>\<open>k in d\<close> on the dict at \<open>d\<close>.\<close>

definition contains :: "string \<Rightarrow> ref \<Rightarrow> (bool, 'm, 'd, 'x) prog" where
  "contains k d = (\<lambda>(tr, w). (Inr (dict_at w d k \<noteq> None), (tr, w)))"

section \<open>The class \<^verbatim>\<open>Retrieval\<close>\<close>

text \<open>
  \<^verbatim>\<open>Retrieval.__init__(self, params)\<close>: keeps the reference to the dict and reads its
  \<^verbatim>\<open>'query_generation'\<close> entry.
\<close>

definition Retrieval_init :: "ref \<Rightarrow> (retrieval, 'm, 'd, 'x) prog" where
  "Retrieval_init ps =
     bindE (subscript ps ''query_generation'') (\<lambda>qg.
     returnE \<lparr>params = ps, query_generation = qg\<rparr>)"

text \<open>\<^verbatim>\<open>Retrieval.retrieve(self, query)\<close>, the body of the base class: \<^verbatim>\<open>pass\<close>.\<close>

definition Retrieval_retrieve :: "retrieval \<Rightarrow> string \<Rightarrow> ('d pyval, 'm, 'd, 'x) prog" where
  "Retrieval_retrieve self query = returnE PyNone"

text \<open>The message of line 45, \<^verbatim>\<open>f'New query: {query}'\<close>.\<close>

definition new_query_msg :: "string \<Rightarrow> string" where
  "new_query_msg query = ''New query: '' @ query"

text \<open>
  \<^verbatim>\<open>Retrieval.get_results(self, conv_list)\<close>, line by line; \<open>E\<close> supplies the collaborators
  and the subclass's \<^verbatim>\<open>retrieve\<close>.
\<close>

definition get_results :: "('m, 'd, 'x) collab \<Rightarrow> retrieval \<Rightarrow> ref \<Rightarrow> ('d pyval, 'm, 'd, 'x) prog" where
  "get_results E self conv_list =
     bindE (call (CallGetQuery (query_generation self) conv_list)
                 (get_query E (query_generation self) conv_list)) (\<lambda>query.
     bindE (subscript (params self) ''logger'') (\<lambda>logger.
     bindE (call (CallInfo logger (new_query_msg query))
                 (info E logger (new_query_msg query))) (\<lambda>_.
     bindE (call (CallRetrieve query) (retrieve E self query)) (\<lambda>result_list.
     bindE (contains ''reranker'' (params self)) (\<lambda>has_reranker.
       if has_reranker then
         bindE (subscript (params self) ''reranker'') (\<lambda>rr.
         call (CallRerank rr query conv_list result_list (params self))
              (rerank E rr query conv_list result_list (params self)))
       else returnE result_list)))))"

section \<open>The class \<^verbatim>\<open>ReRanker\<close>\<close>

text \<open>\<^verbatim>\<open>ReRanker.__init__(self, params)\<close>.\<close>

definition ReRanker_init :: "ref \<Rightarrow> (reranker, 'm, 'd, 'x) prog" where
  "ReRanker_init ps = returnE \<lparr>rr_params = ps\<rparr>"

text \<open>
  \<^verbatim>\<open>ReRanker.rerank(self, query, conv_list, result_list, params)\<close>, the body of the base
  class: \<^verbatim>\<open>pass\<close>.
\<close>

definition ReRanker_rerank ::
  "reranker \<Rightarrow> string \<Rightarrow> ref \<Rightarrow> 'd pyval \<Rightarrow> ref \<Rightarrow> ('d pyval, 'm, 'd, 'x) prog" where
  "ReRanker_rerank self query conv_list result_list ps = returnE PyNone"

section \<open>Reading the recorded calls\<close>

text \<open>The calls a computation adds to those already recorded.\<close>

definition calls_made :: "('a, 'm, 'd, 'x) prog \<Rightarrow> 'd event list \<times> ('m, 'x) world \<Rightarrow> 'd event list" where
  "calls_made m s = drop (length (fst s)) (fst (snd (m s)))"

text \<open>The \<^verbatim>\<open>info\<close> calls of a list of calls, in order: receiver and message.\<close>

fun info_calls :: "'d event list \<Rightarrow> (ref \<times> string) list" where
  "info_calls [] = []"
| "info_calls (CallInfo l m # es) = (l, m) # info_calls es"
| "info_calls (e # es) = info_calls es"

text \<open>The \<^verbatim>\<open>rerank\<close> calls of a list of calls, in order: receiver and the four arguments.\<close>

fun rerank_calls :: "'d event list \<Rightarrow> (ref \<times> string \<times> ref \<times> 'd pyval \<times> ref) list" where
  "rerank_calls [] = []"
| "rerank_calls (CallRerank r q c rl p # es) = (r, q, c, rl, p) # rerank_calls es"
| "rerank_calls (e # es) = rerank_calls es"

text \<open>
  The order of logging and retrieval in a list of calls: no \<^verbatim>\<open>retrieve\<close> or \<^verbatim>\<open>rerank\<close>
  call comes before the first \<^verbatim>\<open>info\<close> call, and no \<^verbatim>\<open>info\<close> call comes after the first.
\<close>

fun logged_before_retrieve :: "'d event list \<Rightarrow> bool" where
  "logged_before_retrieve [] = True"
| "logged_before_retrieve (CallGetQuery g c # es) = logged_before_retrieve es"
| "logged_before_retrieve (CallInfo l m # es) = (info_calls es = [])"
| "logged_before_retrieve (CallRetrieve q # es) = False"
| "logged_before_retrieve (CallRerank r q c rl p # es) = False"

text \<open>
  A collaborator call \<open>f\<close> leaves the dict at \<open>d\<close> and the list at \<open>l\<close> as they are, in
  whatever store it runs and whether it returns or raises.
\<close>

definition leaves :: "ref \<Rightarrow> ref \<Rightarrow> (('m, 'x) world \<Rightarrow> (error + 'a) \<times> ('m, 'x) world) \<Rightarrow> bool" where
  "leaves d l f = (\<forall>w. dict_at (snd (f w)) d = dict_at w d \<and> list_at (snd (f w)) l = list_at w l)"

text \<open>
  The query generator, the logger and the subclass's \<^verbatim>\<open>retrieve\<close> do not write the
  instance's parameters dict or the conversation list.
\<close>

definition collaborators_leave :: "('m, 'd, 'x) collab \<Rightarrow> retrieval \<Rightarrow> ref \<Rightarrow> bool" where
  "collaborators_leave E self conv_list =
     ((\<forall>h. leaves (params self) conv_list (get_query E h conv_list)) \<and>
      (\<forall>h msg. leaves (params self) conv_list (info E h msg)) \<and>
      (\<forall>query. leaves (params self) conv_list (retrieve E self query)))"

section \<open>Stub collaborators\<close>

text \<open>
  The stubs of the two examples: a query generator that answers \<^verbatim>\<open>"weather today"\<close> for
  any conversation, a logger that keeps its messages, a retriever that answers
  \<^verbatim>\<open>["doc1", "doc2"]\<close> for that query, and a re-ranker that answers \<^verbatim>\<open>["doc2"]\<close>.
\<close>

definition stub_collab :: "(string, string, string list) collab" where
  "stub_collab =
     \<lparr>get_query = (\<lambda>h c w. (Inr ''weather today'', w)),
      info = (\<lambda>h msg w. (Inr (), w\<lparr>ext := ext w @ [msg]\<rparr>)),
      retrieve = (\<lambda>self q w.
         (Inr (if q = ''weather today'' then PyList [''doc1'', ''doc2''] else PyList []), w)),
      rerank = (\<lambda>h q c rl p w. (Inr (PyList [''doc2'']), w))\<rparr>"

text \<open>The same with a retriever that raises, and with a re-ranker that raises.\<close>

definition stub_retrieve_raises :: "(string, string, string list) collab" where
  "stub_retrieve_raises = stub_collab\<lparr>retrieve := (\<lambda>self q w. (Inl (Raised ''IOError''), w))\<rparr>"

definition stub_rerank_raises :: "(string, string, string list) collab" where
  "stub_rerank_raises =
     stub_collab\<lparr>rerank := (\<lambda>h q c rl p w. (Inl (Raised ''ValueError''), w))\<rparr>"

text \<open>
  Stores: the parameters dict is object 0, the query generator 1, the logger 2, the
  re-ranker 3 and the conversation list 5.
\<close>

definition stub_world :: "(string \<rightharpoonup> ref) \<Rightarrow> (string, string list) world" where
  "stub_world ps =
     \<lparr>dict_at = (\<lambda>d. if d = 0 then ps else Map.empty),
      list_at = (\<lambda>l. if l = 5 then [''what is the weather''] else []),
      ext = []\<rparr>"

definition params_plain :: "string \<rightharpoonup> ref" where
  "params_plain = [''query_generation'' \<mapsto> 1, ''logger'' \<mapsto> 2]"

definition params_reranker :: "string \<rightharpoonup> ref" where
  "params_reranker = [''query_generation'' \<mapsto> 1, ''logger'' \<mapsto> 2, ''reranker'' \<mapsto> 3]"

definition params_no_logger :: "string \<rightharpoonup> ref" where
  "params_no_logger = [''query_generation'' \<mapsto> 1]"

definition params_no_query_generation :: "string \<rightharpoonup> ref" where
  "params_no_query_generation = [''logger'' \<mapsto> 2]"

definition stub_self :: retrieval where
  "stub_self = \<lparr>params = 0, query_generation = 1\<rparr>"

section \<open>The runs of \<^verbatim>\<open>get_results\<close>\<close>

lemma info_calls_append: "info_calls (xs @ ys) = info_calls xs @ info_calls ys"
  by (induction xs rule: info_calls.induct) simp_all

lemma rerank_calls_append: "rerank_calls (xs @ ys) = rerank_calls xs @ rerank_calls ys"
  by (induction xs rule: rerank_calls.induct) simp_all

lemmas prog_defs = bindE_def call_def subscript_def contains_def returnE_def

text \<open>One lemma for each way through the method, with the calls made and the store left.\<close>

lemma run_query_raises:
  "get_query E (query_generation self) cl w0 = (Inl e, w1) \<Longrightarrow>
   get_results E self cl (tr, w0) =
     (Inl e, (tr @ [CallGetQuery (query_generation self) cl], w1))"
  by (simp add: get_results_def prog_defs)

lemma run_no_logger:
  "get_query E (query_generation self) cl w0 = (Inr query, w1) \<Longrightarrow>
   dict_at w1 (params self) ''logger'' = None \<Longrightarrow>
   get_results E self cl (tr, w0) =
     (Inl (KeyError ''logger''), (tr @ [CallGetQuery (query_generation self) cl], w1))"
  by (simp add: get_results_def prog_defs)

lemma run_info_raises:
  "get_query E (query_generation self) cl w0 = (Inr query, w1) \<Longrightarrow>
   dict_at w1 (params self) ''logger'' = Some lg \<Longrightarrow>
   info E lg (new_query_msg query) w1 = (Inl e, w2) \<Longrightarrow>
   get_results E self cl (tr, w0) =
     (Inl e, (tr @ [CallGetQuery (query_generation self) cl,
                    CallInfo lg (new_query_msg query)], w2))"
  by (simp add: get_results_def prog_defs)

lemma run_retrieve_raises:
  "get_query E (query_generation self) cl w0 = (Inr query, w1) \<Longrightarrow>
   dict_at w1 (params self) ''logger'' = Some lg \<Longrightarrow>
   info E lg (new_query_msg query) w1 = (Inr u, w2) \<Longrightarrow>
   retrieve E self query w2 = (Inl e, w3) \<Longrightarrow>
   get_results E self cl (tr, w0) =
     (Inl e, (tr @ [CallGetQuery (query_generation self) cl,
                    CallInfo lg (new_query_msg query), CallRetrieve query], w3))"
  by (simp add: get_results_def prog_defs)

lemma run_plain:
  "get_query E (query_generation self) cl w0 = (Inr query, w1) \<Longrightarrow>
   dict_at w1 (params self) ''logger'' = Some lg \<Longrightarrow>
   info E lg (new_query_msg query) w1 = (Inr u, w2) \<Longrightarrow>
   retrieve E self query w2 = (Inr result_list, w3) \<Longrightarrow>
   dict_at w3 (params self) ''reranker'' = None \<Longrightarrow>
   get_results E self cl (tr, w0) =
     (Inr result_list, (tr @ [CallGetQuery (query_generation self) cl,
                              CallInfo lg (new_query_msg query), CallRetrieve query], w3))"
  by (simp add: get_results_def prog_defs)

lemma run_reranked:
  "get_query E (query_generation self) cl w0 = (Inr query, w1) \<Longrightarrow>
   dict_at w1 (params self) ''logger'' = Some lg \<Longrightarrow>
   info E lg (new_query_msg query) w1 = (Inr u, w2) \<Longrightarrow>
   retrieve E self query w2 = (Inr result_list, w3) \<Longrightarrow>
   dict_at w3 (params self) ''reranker'' = Some rr \<Longrightarrow>
   rerank E rr query cl result_list (params self) w3 = (r, w4) \<Longrightarrow>
   get_results E self cl (tr, w0) =
     (r, (tr @ [CallGetQuery (query_generation self) cl, CallInfo lg (new_query_msg query),
                CallRetrieve query, CallRerank rr query cl result_list (params self)], w4))"
  by (simp add: get_results_def prog_defs)

text \<open>Every run is one of the six.\<close>

lemma get_results_cases [case_names query_raises no_logger info_raises retrieve_raises plain reranked]:
  obtains
    (query_raises) e w1 where
      "get_query E (query_generation self) cl w0 = (Inl e, w1)"
      "get_results E self cl (tr, w0) =
         (Inl e, (tr @ [CallGetQuery (query_generation self) cl], w1))"
  | (no_logger) query w1 where
      "get_query E (query_generation self) cl w0 = (Inr query, w1)"
      "dict_at w1 (params self) ''logger'' = None"
      "get_results E self cl (tr, w0) =
         (Inl (KeyError ''logger''), (tr @ [CallGetQuery (query_generation self) cl], w1))"
  | (info_raises) query w1 lg e w2 where
      "get_query E (query_generation self) cl w0 = (Inr query, w1)"
      "dict_at w1 (params self) ''logger'' = Some lg"
      "info E lg (new_query_msg query) w1 = (Inl e, w2)"
      "get_results E self cl (tr, w0) =
         (Inl e, (tr @ [CallGetQuery (query_generation self) cl,
                        CallInfo lg (new_query_msg query)], w2))"
  | (retrieve_raises) query w1 lg u w2 e w3 where
      "get_query E (query_generation self) cl w0 = (Inr query, w1)"
      "dict_at w1 (params self) ''logger'' = Some lg"
      "info E lg (new_query_msg query) w1 = (Inr u, w2)"
      "retrieve E self query w2 = (Inl e, w3)"
      "get_results E self cl (tr, w0) =
         (Inl e, (tr @ [CallGetQuery (query_generation self) cl,
                        CallInfo lg (new_query_msg query), CallRetrieve query], w3))"
  | (plain) query w1 lg u w2 result_list w3 where
      "get_query E (query_generation self) cl w0 = (Inr query, w1)"
      "dict_at w1 (params self) ''logger'' = Some lg"
      "info E lg (new_query_msg query) w1 = (Inr u, w2)"
      "retrieve E self query w2 = (Inr result_list, w3)"
      "dict_at w3 (params self) ''reranker'' = None"
      "get_results E self cl (tr, w0) =
         (Inr result_list, (tr @ [CallGetQuery (query_generation self) cl,
                                  CallInfo lg (new_query_msg query), CallRetrieve query], w3))"
  | (reranked) query w1 lg u w2 result_list w3 rr r w4 where
      "get_query E (query_generation self) cl w0 = (Inr query, w1)"
      "dict_at w1 (params self) ''logger'' = Some lg"
      "info E lg (new_query_msg query) w1 = (Inr u, w2)"
      "retrieve E self query w2 = (Inr result_list, w3)"
      "dict_at w3 (params self) ''reranker'' = Some rr"
      "rerank E rr query cl result_list (params self) w3 = (r, w4)"
      "get_results E self cl (tr, w0) =
         (r, (tr @ [CallGetQuery (query_generation self) cl, CallInfo lg (new_query_msg query),
                    CallRetrieve query, CallRerank rr query cl result_list (params self)], w4))"
proof -
  obtain r1 w1 where q: "get_query E (query_generation self) cl w0 = (r1, w1)"
    by (cases "get_query E (query_generation self) cl w0")
  show thesis
  proof (cases r1)
    case (Inl e)
    with q show thesis by (auto intro: query_raises dest: run_query_raises)
  next
    case (Inr query)
    note q = q [unfolded Inr]
    show thesis
    proof (cases "dict_at w1 (params self) ''logger''")
      case None
      from q None run_no_logger [OF q None] show thesis by (rule no_logger)
    next
      case (Some lg)
      obtain r2 w2 where i: "info E lg (new_query_msg query) w1 = (r2, w2)"
        by (cases "info E lg (new_query_msg query) w1")
      show thesis
      proof (cases r2)
        case (Inl e)
        note i = i [unfolded Inl]
        from q Some i run_info_raises [OF q Some i] show thesis by (rule info_raises)
      next
        case (Inr u)
        note i = i [unfolded Inr]
        obtain r3 w3 where r: "retrieve E self query w2 = (r3, w3)"
          by (cases "retrieve E self query w2")
        show thesis
        proof (cases r3)
          case (Inl e)
          note r = r [unfolded Inl]
          from q Some i r run_retrieve_raises [OF q Some i r] show thesis
            by (rule retrieve_raises)
        next
          case (Inr result_list)
          note r = r [unfolded Inr]
          show thesis
          proof (cases "dict_at w3 (params self) ''reranker''")
            case None
            from q Some i r None run_plain [OF q Some i r None] show thesis by (rule plain)
          next
            case rr: (Some rr)
            obtain r4 w4 where k: "rerank E rr query cl result_list (params self) w3 = (r4, w4)"
              by (cases "rerank E rr query cl result_list (params self) w3")
            from q Some i r rr k run_reranked [OF q Some i r rr k] show thesis
              by (rule reranked)
          qed
        qed
      qed
    qed
  qed
qed

lemma calls_made_run:
  "get_results E self cl (tr, w) = (r, (tr @ new, w')) \<Longrightarrow>
   calls_made (get_results E self cl) (tr, w) = new"
  by (simp add: calls_made_def)

section \<open>The stubs, call by call\<close>

lemma stub_get_query: "get_query stub_collab h c w = (Inr ''weather today'', w)"
  by (simp add: stub_collab_def)

lemma stub_info: "info stub_collab h msg w = (Inr (), w\<lparr>ext := ext w @ [msg]\<rparr>)"
  by (simp add: stub_collab_def)

lemma stub_retrieve:
  "retrieve stub_collab s ''weather today'' w = (Inr (PyList [''doc1'', ''doc2'']), w)"
  by (simp add: stub_collab_def)

lemma stub_rerank: "rerank stub_collab h q c rl p w = (Inr (PyList [''doc2'']), w)"
  by (simp add: stub_collab_def)

lemma stub_retrieve_raises_calls:
  "get_query stub_retrieve_raises h c w = (Inr ''weather today'', w)"
  "info stub_retrieve_raises h msg w = (Inr (), w\<lparr>ext := ext w @ [msg]\<rparr>)"
  "retrieve stub_retrieve_raises s q w = (Inl (Raised ''IOError''), w)"
  by (simp_all add: stub_retrieve_raises_def stub_collab_def)

lemma stub_rerank_raises_calls:
  "get_query stub_rerank_raises h c w = (Inr ''weather today'', w)"
  "info stub_rerank_raises h msg w = (Inr (), w\<lparr>ext := ext w @ [msg]\<rparr>)"
  "retrieve stub_rerank_raises s ''weather today'' w = (Inr (PyList [''doc1'', ''doc2'']), w)"
  "rerank stub_rerank_raises h q c rl p w = (Inl (Raised ''ValueError''), w)"
  by (simp_all add: stub_rerank_raises_def stub_collab_def)

lemma stub_self_fields: "params stub_self = 0" "query_generation stub_self = 1"
  by (simp_all add: stub_self_def)

lemma stub_world_dict: "dict_at (stub_world ps) 0 = ps" "dict_at (stub_world ps\<lparr>ext := x\<rparr>) 0 = ps"
  by (simp_all add: stub_world_def)

lemma stub_world_ext: "ext (stub_world ps) = []"
  by (simp add: stub_world_def)

lemma params_plain_keys:
  "params_plain ''query_generation'' = Some 1" "params_plain ''logger'' = Some 2"
  "params_plain ''reranker'' = None"
  by (simp_all add: params_plain_def)

lemma params_reranker_keys:
  "params_reranker ''query_generation'' = Some 1" "params_reranker ''logger'' = Some 2"
  "params_reranker ''reranker'' = Some 3"
  by (simp_all add: params_reranker_def)

lemma params_no_logger_keys:
  "params_no_logger ''query_generation'' = Some 1" "params_no_logger ''logger'' = None"
  by (simp_all add: params_no_logger_def)

lemma params_no_query_generation_keys:
  "params_no_query_generation ''query_generation'' = None"
  by (simp add: params_no_query_generation_def)

lemmas stub_simps = stub_get_query stub_info stub_retrieve stub_rerank stub_retrieve_raises_calls
  stub_rerank_raises_calls stub_self_fields stub_world_dict stub_world_ext params_plain_keys
  params_reranker_keys params_no_logger_keys params_no_query_generation_keys new_query_msg_def

lemma stub_run_plain:
  "get_results stub_collab stub_self 5 (tr, stub_world params_plain) =
     (Inr (PyList [''doc1'', ''doc2'']),
      (tr @ [CallGetQuery 1 5, CallInfo 2 ''New query: weather today'', CallRetrieve ''weather today''],
       (stub_world params_plain)\<lparr>ext := [''New query: weather today'']\<rparr>))"
  using run_plain [of stub_collab stub_self 5 "stub_world params_plain" "''weather today''"
      "stub_world params_plain" 2 "()"
      "(stub_world params_plain)\<lparr>ext := [''New query: weather today'']\<rparr>"
      "PyList [''doc1'', ''doc2'']"
      "(stub_world params_plain)\<lparr>ext := [''New query: weather today'']\<rparr>" tr]
  by (simp add: stub_simps)

section \<open>Collaborators that leave the inputs alone\<close>

lemma leavesD:
  "leaves d l f \<Longrightarrow> f w = (r, w') \<Longrightarrow> dict_at w' d = dict_at w d \<and> list_at w' l = list_at w l"
  by (auto simp add: leaves_def dest: spec [of _ w])

lemma stub_leaves: "collaborators_leave stub_collab self cl"
  by (simp add: collaborators_leave_def leaves_def stub_collab_def)

section \<open>The claims\<close>

text \<open>
  Claim C1. When the parameters dict has no \<^verbatim>\<open>'reranker'\<close> key, \<^verbatim>\<open>get_results(conv_list)\<close>
  returns exactly what the subclass's \<^verbatim>\<open>retrieve(query)\<close> returned, where \<open>query\<close> is what
  the query generator's \<^verbatim>\<open>get_query(conv_list)\<close> returned. The dict is read where the
  method reads it: the \<^verbatim>\<open>'logger'\<close> entry after query generation, the \<^verbatim>\<open>'reranker'\<close> test
  after \<^verbatim>\<open>retrieve\<close> has returned.
\<close>

theorem get_results_without_reranker:
  assumes "get_query E (query_generation self) conv_list w0 = (Inr query, w1)"
    and "dict_at w1 (params self) ''logger'' = Some lg"
    and "info E lg (new_query_msg query) w1 = (Inr u, w2)"
    and "retrieve E self query w2 = (Inr result_list, w3)"
    and "dict_at w3 (params self) ''reranker'' = None"
  shows "fst (get_results E self conv_list (tr, w0)) = Inr result_list"
  using run_plain [OF assms] by simp

theorem get_results_without_reranker_witness:
  "dict_at (stub_world params_plain) (params stub_self) ''reranker'' = None \<and>
   fst (get_results stub_collab stub_self 5 ([], stub_world params_plain))
     = Inr (PyList [''doc1'', ''doc2''])"
proof -
  let ?w = "stub_world params_plain"
  let ?w' = "?w\<lparr>ext := ext ?w @ [new_query_msg ''weather today'']\<rparr>"
  have q: "get_query stub_collab (query_generation stub_self) 5 ?w = (Inr ''weather today'', ?w)"
    by (rule stub_get_query)
  have l: "dict_at ?w (params stub_self) ''logger'' = Some 2"
    by (simp add: stub_simps)
  have i: "info stub_collab 2 (new_query_msg ''weather today'') ?w = (Inr (), ?w')"
    by (rule stub_info)
  have r: "retrieve stub_collab stub_self ''weather today'' ?w' = (Inr (PyList [''doc1'', ''doc2'']), ?w')"
    by (rule stub_retrieve)
  have n: "dict_at ?w' (params stub_self) ''reranker'' = None"
    by (simp add: stub_simps)
  from get_results_without_reranker [OF q l i r n] n show ?thesis
    by simp
qed

text \<open>
  Claim C2. When the parameters dict has a \<^verbatim>\<open>'reranker'\<close> key, \<^verbatim>\<open>get_results(conv_list)\<close>
  ends exactly as the re-ranker's \<^verbatim>\<open>rerank(query, conv_list, result_list, params)\<close> call
  ends (\<open>r\<close>: the value it returns, or the exception it raises), where \<open>query\<close> is the
  generated query and \<open>result_list\<close> what \<^verbatim>\<open>retrieve(query)\<close> returned; the output of
  \<^verbatim>\<open>retrieve\<close> is not what is returned.
\<close>

theorem get_results_with_reranker:
  assumes "get_query E (query_generation self) conv_list w0 = (Inr query, w1)"
    and "dict_at w1 (params self) ''logger'' = Some lg"
    and "info E lg (new_query_msg query) w1 = (Inr u, w2)"
    and "retrieve E self query w2 = (Inr result_list, w3)"
    and "dict_at w3 (params self) ''reranker'' = Some rr"
    and "rerank E rr query conv_list result_list (params self) w3 = (r, w4)"
  shows "fst (get_results E self conv_list (tr, w0)) = r"
  using run_reranked [OF assms] by simp

theorem get_results_with_reranker_witness:
  "dict_at (stub_world params_reranker) (params stub_self) ''reranker'' = Some 3 \<and>
   fst (retrieve stub_collab stub_self ''weather today'' (stub_world params_reranker))
     = Inr (PyList [''doc1'', ''doc2'']) \<and>
   fst (get_results stub_collab stub_self 5 ([], stub_world params_reranker))
     = Inr (PyList [''doc2''])"
proof -
  let ?w = "stub_world params_reranker"
  let ?w' = "?w\<lparr>ext := ext ?w @ [new_query_msg ''weather today'']\<rparr>"
  have q: "get_query stub_collab (query_generation stub_self) 5 ?w = (Inr ''weather today'', ?w)"
    by (rule stub_get_query)
  have l: "dict_at ?w (params stub_self) ''logger'' = Some 2"
    by (simp add: stub_simps)
  have i: "info stub_collab 2 (new_query_msg ''weather today'') ?w = (Inr (), ?w')"
    by (rule stub_info)
  have r: "retrieve stub_collab stub_self ''weather today'' ?w' = (Inr (PyList [''doc1'', ''doc2'']), ?w')"
    by (rule stub_retrieve)
  have n: "dict_at ?w' (params stub_self) ''reranker'' = Some 3"
    by (simp add: stub_simps)
  have k: "rerank stub_collab 3 ''weather today'' 5 (PyList [''doc1'', ''doc2'']) (params stub_self) ?w'
             = (Inr (PyList [''doc2'']), ?w')"
    by (rule stub_rerank)
  from get_results_with_reranker [OF q l i r n k] show ?thesis
    by (simp add: stub_simps)
qed

text \<open>
  Claim C3. On a parameters dict without the key \<^verbatim>\<open>'query_generation'\<close>,
  \<^verbatim>\<open>Retrieval.__init__\<close> fails with the key-lookup error for that key; no instance comes to
  exist, no call is made (none to \<^verbatim>\<open>retrieve\<close> in particular) and the store is as before.
\<close>

theorem Retrieval_init_missing_query_generation:
  assumes "dict_at w ps ''query_generation'' = None"
  shows "Retrieval_init ps (tr, w) = (Inl (KeyError ''query_generation''), (tr, w))"
  using assms by (simp add: Retrieval_init_def prog_defs)

theorem Retrieval_init_missing_query_generation_witness:
  "dict_at (stub_world params_no_query_generation) 0 ''query_generation'' = None \<and>
   Retrieval_init 0 ([] :: string event list, stub_world params_no_query_generation)
     = (Inl (KeyError ''query_generation''), ([], stub_world params_no_query_generation))"
proof -
  have h: "dict_at (stub_world params_no_query_generation) 0 ''query_generation'' = None"
    by (simp add: stub_simps)
  from Retrieval_init_missing_query_generation [OF h] h show ?thesis
    by simp
qed

text \<open>
  Claim C4. When the parameters dict has no \<^verbatim>\<open>'logger'\<close> key, \<^verbatim>\<open>get_results\<close> fails
  before \<^verbatim>\<open>retrieve\<close> is invoked: the one call made is the one to \<^verbatim>\<open>get_query\<close>, so
  \<^verbatim>\<open>retrieve\<close> is never called. After query generation (the query generator has returned
  its query) the failure is the key-lookup error for \<^verbatim>\<open>'logger'\<close>; an exception of the
  query generator itself reaches the caller as it is.
\<close>

theorem get_results_missing_logger:
  assumes "get_query E (query_generation self) conv_list w0 = (r1, w1)"
    and "dict_at w1 (params self) ''logger'' = None"
  shows "get_results E self conv_list (tr, w0) =
           (Inl (case r1 of Inl e \<Rightarrow> e | Inr query \<Rightarrow> KeyError ''logger''),
            (tr @ [CallGetQuery (query_generation self) conv_list], w1))"
proof (cases r1)
  case (Inl e)
  with run_query_raises [of E self conv_list w0 e w1 tr] assms(1) show ?thesis
    by simp
next
  case (Inr query)
  with run_no_logger [of E self conv_list w0 query w1 tr] assms show ?thesis
    by simp
qed

theorem get_results_missing_logger_witness:
  "dict_at (stub_world params_no_logger) (params stub_self) ''logger'' = None \<and>
   get_results stub_collab stub_self 5 ([], stub_world params_no_logger) =
     (Inl (KeyError ''logger''), ([CallGetQuery 1 5], stub_world params_no_logger))"
proof -
  let ?w = "stub_world params_no_logger"
  have q: "get_query stub_collab (query_generation stub_self) 5 ?w = (Inr ''weather today'', ?w)"
    by (rule stub_get_query)
  have l: "dict_at ?w (params stub_self) ''logger'' = None"
    by (simp add: stub_simps)
  from get_results_missing_logger [OF q l, of "[]"] l show ?thesis
    by (simp add: stub_simps)
qed

text \<open>
  Claim C5. In every call of \<^verbatim>\<open>get_results(conv_list)\<close> that returns, the method makes
  exactly one \<^verbatim>\<open>info\<close> call, to the object under \<^verbatim>\<open>'logger'\<close>, and its message is
  \<^verbatim>\<open>New query: \<close> followed by the query that the query generator returned for
  \<^verbatim>\<open>conv_list\<close>.
\<close>

theorem get_results_logs_query_once:
  assumes "fst (get_results E self conv_list (tr, w0)) = Inr res"
  shows "\<exists>query w1 lg.
           get_query E (query_generation self) conv_list w0 = (Inr query, w1) \<and>
           dict_at w1 (params self) ''logger'' = Some lg \<and>
           info_calls (calls_made (get_results E self conv_list) (tr, w0))
             = [(lg, ''New query: '' @ query)]"
proof (cases rule: get_results_cases [of E self conv_list w0 tr])
  case (plain query w1 lg u w2 result_list w3)
  from calls_made_run [OF plain(6)] plain(1,2) show ?thesis
    by (simp add: new_query_msg_def)
next
  case (reranked query w1 lg u w2 result_list w3 rr r w4)
  from calls_made_run [OF reranked(7)] reranked(1,2) show ?thesis
    by (simp add: new_query_msg_def)
qed (use assms in simp_all)

theorem get_results_logs_query_once_witness:
  "fst (get_results stub_collab stub_self 5 ([], stub_world params_plain))
     = Inr (PyList [''doc1'', ''doc2'']) \<and>
   info_calls (calls_made (get_results stub_collab stub_self 5) ([], stub_world params_plain))
     = [(2, ''New query: weather today'')]"
proof -
  have h: "fst (get_results stub_collab stub_self 5 ([], stub_world params_plain))
             = Inr (PyList [''doc1'', ''doc2''])"
    by (simp add: stub_run_plain)
  from get_results_logs_query_once [OF h] h show ?thesis
    by (auto simp add: stub_simps)
qed

text \<open>
  Claim C6. With no re-ranker configured, \<^verbatim>\<open>get_results\<close> writes neither the parameters
  dict nor the conversation list: when the collaborators it calls (query generator, logger,
  \<^verbatim>\<open>retrieve\<close>) leave the two objects as they are, both hold after the call what they held
  before it (the dict the same keys and values, the list the same elements in the same
  order), whether the call returns or raises.
\<close>

theorem get_results_leaves_inputs:
  assumes "collaborators_leave E self conv_list"
    and "dict_at w0 (params self) ''reranker'' = None"
  shows "dict_at (snd (snd (get_results E self conv_list (tr, w0)))) (params self)
           = dict_at w0 (params self) \<and>
         list_at (snd (snd (get_results E self conv_list (tr, w0)))) conv_list
           = list_at w0 conv_list"
proof -
  from assms(1) have
    lq: "leaves (params self) conv_list (get_query E (query_generation self) conv_list)" and
    li: "\<And>h msg. leaves (params self) conv_list (info E h msg)" and
    lr: "\<And>query. leaves (params self) conv_list (retrieve E self query)"
    by (simp_all add: collaborators_leave_def)
  show ?thesis
  proof (cases rule: get_results_cases [of E self conv_list w0 tr])
    case (query_raises e w1)
    from leavesD [OF lq query_raises(1)] query_raises(2) show ?thesis by simp
  next
    case (no_logger query w1)
    from leavesD [OF lq no_logger(1)] no_logger(3) show ?thesis by simp
  next
    case (info_raises query w1 lg e w2)
    from leavesD [OF lq info_raises(1)] leavesD [OF li info_raises(3)] info_raises(4)
    show ?thesis by simp
  next
    case (retrieve_raises query w1 lg u w2 e w3)
    from leavesD [OF lq retrieve_raises(1)] leavesD [OF li retrieve_raises(3)]
      leavesD [OF lr retrieve_raises(4)] retrieve_raises(5)
    show ?thesis by simp
  next
    case (plain query w1 lg u w2 result_list w3)
    from leavesD [OF lq plain(1)] leavesD [OF li plain(3)] leavesD [OF lr plain(4)] plain(6)
    show ?thesis by simp
  next
    case (reranked query w1 lg u w2 result_list w3 rr r w4)
    from leavesD [OF lq reranked(1)] leavesD [OF li reranked(3)] leavesD [OF lr reranked(4)]
    have "dict_at w3 (params self) = dict_at w0 (params self)" by simp
    with reranked(5) assms(2) show ?thesis by simp
  qed
qed

theorem get_results_leaves_inputs_witness:
  "collaborators_leave stub_collab stub_self 5 \<and>
   dict_at (stub_world params_plain) (params stub_self) ''reranker'' = None \<and>
   dict_at (snd (snd (get_results stub_collab stub_self 5 ([], stub_world params_plain)))) 0
     = params_plain \<and>
   list_at (snd (snd (get_results stub_collab stub_self 5 ([], stub_world params_plain)))) 5
     = [''what is the weather'']"
proof -
  have c: "collaborators_leave stub_collab stub_self 5"
    by (rule stub_leaves)
  have n: "dict_at (stub_world params_plain) (params stub_self) ''reranker'' = None"
    by (simp add: stub_simps)
  from get_results_leaves_inputs [OF c n, of "[]"] c n show ?thesis
    by (simp add: stub_simps stub_world_def)
qed

text \<open>
  Claim C7. The base-class \<^verbatim>\<open>ReRanker.rerank\<close> returns \<^verbatim>\<open>None\<close> for every query,
  conversation list, result list and parameters dict.
\<close>

theorem ReRanker_rerank_returns_None:
  "fst (ReRanker_rerank self query conv_list result_list ps s) = Inr PyNone"
  by (simp add: ReRanker_rerank_def returnE_def)

text \<open>
  Claim C8, as stated: invoking the base-class \<^verbatim>\<open>retrieve\<close> or the base-class \<^verbatim>\<open>rerank\<close>
  fails (raises instead of returning). Both bodies are \<^verbatim>\<open>pass\<close>: on the stub inputs neither
  call fails.
\<close>

theorem base_methods_fail_counterexample:
  "\<not> isl (fst (Retrieval_retrieve stub_self ''weather today''
                 ([] :: string event list, stub_world params_plain))) \<and>
   \<not> isl (fst (ReRanker_rerank \<lparr>rr_params = 0\<rparr> ''weather today'' 5 (PyList [''doc1'', ''doc2'']) 0
                 ([] :: string event list, stub_world params_plain)))"
  by (simp add: Retrieval_retrieve_def ReRanker_rerank_def returnE_def)

text \<open>
  Claim C8, amended: invoking the base-class body of \<^verbatim>\<open>retrieve\<close>, or of \<^verbatim>\<open>rerank\<close>, does
  not fail: for every input it returns \<^verbatim>\<open>None\<close> at once, making no call and leaving the
  store as it is.
\<close>

theorem base_methods_return_None:
  "Retrieval_retrieve self query s = (Inr PyNone, s) \<and>
   ReRanker_rerank rr query' conv_list result_list ps s' = (Inr PyNone, s')"
  by (simp add: Retrieval_retrieve_def ReRanker_rerank_def returnE_def)

text \<open>
  Claim C9. When the \<^verbatim>\<open>'reranker'\<close> key is present, the one \<^verbatim>\<open>rerank\<close> call that
  \<^verbatim>\<open>get_results\<close> makes has as its fourth argument the very dict the instance was
  constructed with (\<^verbatim>\<open>self.params\<close>, the reference \<open>ps\<close> given to \<^verbatim>\<open>__init__\<close>): the
  dict itself and not a copy, so the re-ranker sees every entry it holds, the
  \<^verbatim>\<open>'reranker'\<close> entry included.
\<close>

theorem get_results_passes_own_params:
  assumes "Retrieval_init ps (tr0, wc) = (Inr self, sc)"
    and "get_query E (query_generation self) conv_list w0 = (Inr query, w1)"
    and "dict_at w1 (params self) ''logger'' = Some lg"
    and "info E lg (new_query_msg query) w1 = (Inr u, w2)"
    and "retrieve E self query w2 = (Inr result_list, w3)"
    and "dict_at w3 (params self) ''reranker'' = Some rr"
  shows "rerank_calls (calls_made (get_results E self conv_list) (tr, w0))
           = [(rr, query, conv_list, result_list, ps)] \<and>
         dict_at w3 ps ''reranker'' = Some rr"
proof -
  from assms(1) have p: "params self = ps"
    by (auto simp add: Retrieval_init_def prog_defs split: option.splits)
  obtain r w4 where k: "rerank E rr query conv_list result_list (params self) w3 = (r, w4)"
    by (cases "rerank E rr query conv_list result_list (params self) w3")
  from calls_made_run [OF run_reranked [OF assms(2-6) k]] assms(6) p show ?thesis
    by simp
qed

theorem get_results_passes_own_params_witness:
  "Retrieval_init 0 ([] :: string event list, stub_world params_reranker)
     = (Inr stub_self, ([], stub_world params_reranker)) \<and>
   rerank_calls (calls_made (get_results stub_collab stub_self 5) ([], stub_world params_reranker))
     = [(3, ''weather today'', 5, PyList [''doc1'', ''doc2''], 0)] \<and>
   dict_at (stub_world params_reranker) 0 = params_reranker"
proof -
  let ?w = "stub_world params_reranker"
  let ?w' = "?w\<lparr>ext := ext ?w @ [new_query_msg ''weather today'']\<rparr>"
  have c: "Retrieval_init 0 ([] :: string event list, ?w) = (Inr stub_self, ([], ?w))"
    by (simp add: Retrieval_init_def prog_defs stub_simps stub_self_def)
  have q: "get_query stub_collab (query_generation stub_self) 5 ?w = (Inr ''weather today'', ?w)"
    by (rule stub_get_query)
  have l: "dict_at ?w (params stub_self) ''logger'' = Some 2"
    by (simp add: stub_simps)
  have i: "info stub_collab 2 (new_query_msg ''weather today'') ?w = (Inr (), ?w')"
    by (rule stub_info)
  have r: "retrieve stub_collab stub_self ''weather today'' ?w' = (Inr (PyList [''doc1'', ''doc2'']), ?w')"
    by (rule stub_retrieve)
  have n: "dict_at ?w' (params stub_self) ''reranker'' = Some 3"
    by (simp add: stub_simps)
  from get_results_passes_own_params [OF c q l i r n, of "[]"] c show ?thesis
    by (simp add: stub_simps)
qed

text \<open>
  Claim C10. In every run of \<^verbatim>\<open>get_results\<close> the \<^verbatim>\<open>info\<close> call comes before
  \<^verbatim>\<open>retrieve\<close> is invoked and none comes after it. So when \<^verbatim>\<open>retrieve\<close> raises, or the
  re-ranker's \<^verbatim>\<open>rerank\<close> raises, the exception reaches the caller with the query already
  logged.
\<close>

theorem get_results_logs_before_retrieve:
  "logged_before_retrieve (calls_made (get_results E self conv_list) (tr, w0)) \<and>
   (get_query E (query_generation self) conv_list w0 = (Inr query, w1) \<longrightarrow>
    dict_at w1 (params self) ''logger'' = Some lg \<longrightarrow>
    info E lg (new_query_msg query) w1 = (Inr u, w2) \<longrightarrow>
      (retrieve E self query w2 = (Inl e, w3) \<longrightarrow>
         get_results E self conv_list (tr, w0) =
           (Inl e, (tr @ [CallGetQuery (query_generation self) conv_list,
                          CallInfo lg (new_query_msg query), CallRetrieve query], w3))) \<and>
      (retrieve E self query w2 = (Inr result_list, w3) \<longrightarrow>
       dict_at w3 (params self) ''reranker'' = Some rr \<longrightarrow>
       rerank E rr query conv_list result_list (params self) w3 = (Inl e, w4) \<longrightarrow>
         get_results E self conv_list (tr, w0) =
           (Inl e, (tr @ [CallGetQuery (query_generation self) conv_list,
                          CallInfo lg (new_query_msg query), CallRetrieve query,
                          CallRerank rr query conv_list result_list (params self)], w4))))"
proof (intro conjI impI)
  show "logged_before_retrieve (calls_made (get_results E self conv_list) (tr, w0))"
  proof (cases rule: get_results_cases [of E self conv_list w0 tr])
    case (query_raises e w1)
    from calls_made_run [OF query_raises(2)] show ?thesis by simp
  next
    case (no_logger query w1)
    from calls_made_run [OF no_logger(3)] show ?thesis by simp
  next
    case (info_raises query w1 lg e w2)
    from calls_made_run [OF info_raises(4)] show ?thesis by simp
  next
    case (retrieve_raises query w1 lg u w2 e w3)
    from calls_made_run [OF retrieve_raises(5)] show ?thesis by simp
  next
    case (plain query w1 lg u w2 result_list w3)
    from calls_made_run [OF plain(6)] show ?thesis by simp
  next
    case (reranked query w1 lg u w2 result_list w3 rr r w4)
    from calls_made_run [OF reranked(7)] show ?thesis by simp
  qed
qed (simp_all add: run_retrieve_raises run_reranked)

theorem get_results_logs_before_retrieve_witness:
  "get_results stub_retrieve_raises stub_self 5 ([], stub_world params_plain) =
     (Inl (Raised ''IOError''),
      ([CallGetQuery 1 5, CallInfo 2 ''New query: weather today'', CallRetrieve ''weather today''],
       (stub_world params_plain)\<lparr>ext := [''New query: weather today'']\<rparr>)) \<and>
   get_results stub_rerank_raises stub_self 5 ([], stub_world params_reranker) =
     (Inl (Raised ''ValueError''),
      ([CallGetQuery 1 5, CallInfo 2 ''New query: weather today'', CallRetrieve ''weather today'',
        CallRerank 3 ''weather today'' 5 (PyList [''doc1'', ''doc2'']) 0],
       (stub_world params_reranker)\<lparr>ext := [''New query: weather today'']\<rparr>))"
proof -
  let ?w = "stub_world params_plain"
  let ?w' = "?w\<lparr>ext := ext ?w @ [new_query_msg ''weather today'']\<rparr>"
  let ?v = "stub_world params_reranker"
  let ?v' = "?v\<lparr>ext := ext ?v @ [new_query_msg ''weather today'']\<rparr>"
  have a: "get_results stub_retrieve_raises stub_self 5 ([], ?w) =
     (Inl (Raised ''IOError''),
      ([] @ [CallGetQuery (query_generation stub_self) 5,
             CallInfo 2 (new_query_msg ''weather today''), CallRetrieve ''weather today''], ?w'))"
    using get_results_logs_before_retrieve [of stub_retrieve_raises stub_self 5 "[]" ?w
        "''weather today''" ?w 2 "()" ?w' "Raised ''IOError''" ?w']
    by (simp add: stub_simps)
  have b: "get_results stub_rerank_raises stub_self 5 ([], ?v) =
     (Inl (Raised ''ValueError''),
      ([] @ [CallGetQuery (query_generation stub_self) 5,
             CallInfo 2 (new_query_msg ''weather today''), CallRetrieve ''weather today'',
             CallRerank 3 ''weather today'' 5 (PyList [''doc1'', ''doc2'']) (params stub_self)], ?v'))"
    using get_results_logs_before_retrieve [of stub_rerank_raises stub_self 5 "[]" ?v
        "''weather today''" ?v 2 "()" ?v' "Raised ''ValueError''" ?v'
        "PyList [''doc1'', ''doc2'']" 3 ?v']
    by (simp add: stub_simps)
  from a b show ?thesis
    by (simp add: stub_simps)
qed

end
